theory Spec2Isabelle
  imports Main
begin

section \<open>The factorial function of mymath\<close>

text \<open>
  The source, \<^verbatim>\<open>day2/exercise3/src/mymath/_factorial.py\<close>:
  \<^verbatim>\<open>
  def factorial(n: int) -> int:
      result = 1
      for i in range(1, n + 1):
          result *= i
      return result
  \<close>
  Python integers are unbounded, so \<open>n\<close>, \<open>i\<close> and \<open>result\<close> are of type \<open>int\<close>
  and \<open>+\<close> and \<open>*\<close> are exact.

  The \<open>for\<close> statement drives the iterator of \<open>range(1, n + 1)\<close>: the iterator holds the
  next value \<open>i\<close> (first \<open>1\<close>) and the bound \<open>stop = n + 1\<close>; while \<open>i < stop\<close> it hands
  \<open>i\<close> to the body and moves on to \<open>i + 1\<close>, and it is exhausted as soon as
  \<open>i < stop\<close> fails. The loop is written as this recursion. It is a partial function
  in the option monad: a run that never left the loop would be \<open>None\<close>, so that
  returning is a property to prove, not one that holds by the choice of the model.

  The last argument counts the executions of the loop body. It is not a variable of
  the source: it records how often \<open>result *= i\<close> runs.
\<close>

partial_function (option) factorial_loop :: "int \<Rightarrow> int \<Rightarrow> int \<Rightarrow> nat \<Rightarrow> (int \<times> nat) option" where
  "factorial_loop i stop result iters =
     (if i < stop then factorial_loop (i + 1) stop (result * i) (Suc iters)
      else Some (result, iters))"

declare factorial_loop.simps [code]

text \<open>The whole body: \<open>result = 1\<close>, the loop over \<open>range(1, n + 1)\<close>, \<open>return result\<close>.\<close>

definition factorial_run :: "int \<Rightarrow> (int \<times> nat) option" where
  "factorial_run n = factorial_loop 1 (n + 1) 1 0"

text \<open>The value returned by \<open>factorial(n)\<close>.\<close>

definition factorial :: "int \<Rightarrow> int option" where
  "factorial n = map_option fst (factorial_run n)"

text \<open>How many times the loop body ran in the call \<open>factorial(n)\<close>.\<close>

definition factorial_iterations :: "int \<Rightarrow> nat option" where
  "factorial_iterations n = map_option snd (factorial_run n)"

subsection \<open>The call on an explicit store\<close>

text \<open>
  To see what a call reads and writes, the same body is run on an explicit store. The
  store has the variables of the module and of the rest of the program (\<open>globals\<close>,
  with values of any type \<open>'v\<close>) and the frame of the call (\<open>locals\<close>). A call makes
  a new frame that binds the parameter \<open>n\<close>. The body has no \<open>global\<close> or \<open>nonlocal\<close>
  statement, so the names it assigns, \<open>result\<close> and \<open>i\<close>, are variables of the frame:
  an assignment writes the frame, and reading one of them looks in the frame only
  and raises \<open>UnboundLocalError\<close> when the name is not bound yet. \<open>range\<close> is the
  builtin, as in the model above: the module binds no name \<open>range\<close>.
\<close>

datatype error = UnboundLocalError | UnicodeEncodeError

record 'v pystate =
  globals :: "string \<rightharpoonup> 'v"
  locals :: "string \<rightharpoonup> int"

definition store_local :: "string \<Rightarrow> int \<Rightarrow> 'v pystate \<Rightarrow> 'v pystate" where
  "store_local x v s = s\<lparr>locals := (locals s)(x \<mapsto> v)\<rparr>"

definition load_local :: "string \<Rightarrow> 'v pystate \<Rightarrow> error + int" where
  "load_local x s = (case locals s x of None \<Rightarrow> Inl UnboundLocalError | Some v \<Rightarrow> Inr v)"

text \<open>The loop body \<open>result *= i\<close>: read \<open>result\<close> and \<open>i\<close>, bind \<open>result\<close> to the product.\<close>

definition loop_body :: "'v pystate \<Rightarrow> error + 'v pystate" where
  "loop_body s =
     (case load_local ''result'' s of
        Inl e \<Rightarrow> Inl e
      | Inr r \<Rightarrow>
          (case load_local ''i'' s of
             Inl e \<Rightarrow> Inl e
           | Inr i \<Rightarrow> Inr (store_local ''result'' (r * i) s)))"

text \<open>
  \<open>for i in range(i, stop)\<close>: while the iterator has a value, bind \<open>i\<close> to it and run
  the body; an exception of the body leaves the loop.
\<close>

function for_range :: "int \<Rightarrow> int \<Rightarrow> 'v pystate \<Rightarrow> error + 'v pystate" where
  "for_range i stop s =
     (if i < stop then
        (case loop_body (store_local ''i'' i s) of
           Inl e \<Rightarrow> Inl e
         | Inr s' \<Rightarrow> for_range (i + 1) stop s')
      else Inr s)"
  by pat_completeness auto
termination
  by (relation "measure (\<lambda>(i, stop, s). nat (stop - i))") auto

declare for_range.simps [simp del]

text \<open>
  The call \<open>factorial(n)\<close> from the globals \<open>g\<close>: the new frame, \<open>result = 1\<close>, the loop
  over \<open>range(1, n + 1)\<close> and \<open>return result\<close>. It gives the returned value and the
  globals the call leaves behind; the frame is dropped.
\<close>

definition factorial_exec :: "int \<Rightarrow> (string \<rightharpoonup> 'v) \<Rightarrow> error + int \<times> (string \<rightharpoonup> 'v)" where
  "factorial_exec n g =
     (let s0 = \<lparr>globals = g, locals = [''n'' \<mapsto> n]\<rparr>;
          s1 = store_local ''result'' 1 s0
      in case load_local ''n'' s1 of
           Inl e \<Rightarrow> Inl e
         | Inr m \<Rightarrow>
             (case for_range 1 (m + 1) s1 of
                Inl e \<Rightarrow> Inl e
              | Inr s2 \<Rightarrow>
                  (case load_local ''result'' s2 of
                     Inl e \<Rightarrow> Inl e
                   | Inr r \<Rightarrow> Inr (r, globals s2))))"

text \<open>
  A caller making the calls \<open>factorial(n)\<close> for the arguments of a list, one after
  the other, each from the globals the previous one left; it collects the results.
\<close>

fun factorial_calls :: "int list \<Rightarrow> (string \<rightharpoonup> 'v) \<Rightarrow> error + int list \<times> (string \<rightharpoonup> 'v)" where
  "factorial_calls [] g = Inr ([], g)"
| "factorial_calls (n # ns) g =
     (case factorial_exec n g of
        Inl e \<Rightarrow> Inl e
      | Inr (r, g') \<Rightarrow>
          (case factorial_calls ns g' of
             Inl e \<Rightarrow> Inl e
           | Inr (rs, g'') \<Rightarrow> Inr (r # rs, g'')))"

section \<open>The greeting script\<close>

text \<open>
  The source, \<^verbatim>\<open>day2/exercise1/hello_curp.py\<close>:
  \<^verbatim>\<open>
  def get_user_name():
      name = os.getenv('USER')
      if name is None:
          name = os.getenv('USERNAME')
      return name

  def main():
      parser = argparse.ArgumentParser()
      parser.add_argument('--user', type=str, default=None)
      args = parser.parse_args()
      if args.user is None:
          print(f'Hi! Are you {get_user_name()}?')
      else:
          print(f'Hi, {args.user}!')
  \<close>
  The environment of the process is a map from variable names to values;
  \<open>os.getenv(key)\<close> is the value of \<open>key\<close>, or \<open>None\<close> when the variable is not set.
\<close>

type_synonym environ = "string \<rightharpoonup> string"

definition getenv :: "environ \<Rightarrow> string \<Rightarrow> string option" where
  "getenv env key = env key"

definition get_user_name :: "environ \<Rightarrow> string option" where
  "get_user_name env =
     (let name = getenv env ''USER'' in
      if name = None then getenv env ''USERNAME'' else name)"

text \<open>
  A replacement field of an f-string formats its value with \<open>format\<close>: a string is
  inserted as it is, and \<open>None\<close> as the four characters \<open>None\<close>.
\<close>

fun format_py :: "string option \<Rightarrow> string" where
  "format_py None = ''None''"
| "format_py (Some s) = s"

text \<open>
  Standard output is the text written so far. \<open>print(s)\<close> writes \<open>s\<close> and a newline
  to the text stream \<open>sys.stdout\<close>, whose codec (fixed when the interpreter starts,
  from the locale and \<open>PYTHONIOENCODING\<close>) has to encode every character: when it
  cannot encode one of them, the write raises \<open>UnicodeEncodeError\<close> and nothing of
  \<open>s\<close> is written. The codecs of standard output (ASCII, Latin-1, UTF-8 and the
  like) all encode the 128 ASCII characters, the newline among them; a codec is
  given here by the further characters it encodes.
\<close>

type_synonym codec = "char \<Rightarrow> bool"

definition encodable :: "codec \<Rightarrow> char \<Rightarrow> bool" where
  "encodable enc c = (of_char c < (128::nat) \<or> enc c)"

definition print_py :: "codec \<Rightarrow> string \<Rightarrow> string \<Rightarrow> error + string" where
  "print_py enc s out =
     (if list_all (encodable enc) s then Inr (out @ s @ [CHR 0x0A])
      else Inl UnicodeEncodeError)"

text \<open>
  \<open>parse_args\<close> belongs to the standard library, not to this repository. \<open>main\<close> is
  modelled from its result on: the namespace \<open>args\<close>, whose attribute \<open>user\<close> is the
  string given with \<open>--user\<close>, and \<open>None\<close> (the declared default) when the argument
  is absent. \<open>main\<close> catches nothing, so an exception of \<open>print\<close> is its outcome.
\<close>

record namespace =
  user :: "string option"

definition main :: "codec \<Rightarrow> namespace \<Rightarrow> environ \<Rightarrow> string \<Rightarrow> error + string" where
  "main enc args env out =
     (case user args of
        None \<Rightarrow> print_py enc (''Hi! Are you '' @ format_py (get_user_name env) @ ''?'') out
      | Some u \<Rightarrow> print_py enc (''Hi, '' @ u @ ''!'') out)"

section \<open>What the loop computes\<close>

lemma factorial_loop_done:
  "stop \<le> i \<Longrightarrow> factorial_loop i stop result iters = Some (result, iters)"
  by (subst factorial_loop.simps) simp

lemma factorial_loop_step:
  "i < stop \<Longrightarrow>
   factorial_loop i stop result iters = factorial_loop (i + 1) stop (result * i) (Suc iters)"
  by (subst factorial_loop.simps) simp

text \<open>
  The loop leaves after \<open>stop - i\<close> rounds (none when \<open>stop \<le> i\<close>), having multiplied
  the accumulator by every integer from \<open>i\<close> to \<open>stop - 1\<close>. Induction on the number of
  rounds left, with the loop variables generalised.
\<close>

lemma factorial_loop_eq:
  "factorial_loop i stop result iters =
     Some (result * (\<Prod>k = i..stop - 1. k), iters + nat (stop - i))"
proof (induction "nat (stop - i)" arbitrary: i result iters)
  case 0
  then have "stop \<le> i" by simp
  then show ?case by (simp add: factorial_loop_done)
next
  case (Suc m)
  then have lt: "i < stop" and m: "m = nat (stop - (i + 1))" by simp_all
  have split: "{i..stop - 1} = insert i {i + 1..stop - 1}"
    using lt by (simp add: simp_from_to)
  have "(\<Prod>k = i..stop - 1. k) = i * (\<Prod>k = i + 1..stop - 1. k)"
    by (subst split) simp
  moreover have "Suc iters + nat (stop - (i + 1)) = iters + nat (stop - i)"
    using lt by simp
  ultimately show ?case
    using Suc.hyps(1) [OF m, of "result * i" "Suc iters"] lt
    by (simp add: factorial_loop_step mult.assoc)
qed

lemma factorial_run_eq: "factorial_run n = Some (\<Prod>k = 1..n. k, nat n)"
  by (simp add: factorial_run_def factorial_loop_eq)

lemma factorial_eq_prod: "factorial n = Some (\<Prod>k = 1..n. k)"
  by (simp add: factorial_def factorial_run_eq)

lemma factorial_iterations_eq: "factorial_iterations n = Some (nat n)"
  by (simp add: factorial_iterations_def factorial_run_eq)

lemma prod_upto_fact: "0 \<le> n \<Longrightarrow> (\<Prod>k = 1..n. k) = fact (nat n)"
proof (induction n rule: int_ge_induct)
  case base
  show ?case by simp
next
  case (step m)
  have "{1..m + 1} = insert (m + 1) {1..m}"
    using step.hyps by (simp add: atLeastAtMostPlus1_int_conv add.commute)
  then have "(\<Prod>k = 1..m + 1. k) = (m + 1) * (\<Prod>k = 1..m. k)"
    by simp
  moreover have "nat (m + 1) = Suc (nat m)" using step.hyps by simp
  ultimately show ?case using step by (simp add: algebra_simps)
qed

subsection \<open>The loop on the store\<close>

text \<open>
  Once \<open>result\<close> is bound, the loop raises nothing, leaves the globals and the
  parameter as they are, and multiplies \<open>result\<close> by every integer from \<open>i\<close> to
  \<open>stop - 1\<close>.
\<close>

lemma for_range_frame:
  "locals s ''result'' = Some r \<Longrightarrow>
     \<exists>s'. for_range i stop s = Inr s' \<and> globals s' = globals s \<and>
          locals s' ''n'' = locals s ''n'' \<and>
          locals s' ''result'' = Some (r * (\<Prod>k = i..stop - 1. k))"
proof (induction "nat (stop - i)" arbitrary: i s r)
  case 0
  then have "stop \<le> i" by simp
  with 0 show ?case by (simp add: for_range.simps)
next
  case (Suc m)
  then have lt: "i < stop" and m: "m = nat (stop - (i + 1))" by simp_all
  let ?s1 = "store_local ''result'' (r * i) (store_local ''i'' i s)"
  have body: "loop_body (store_local ''i'' i s) = Inr ?s1"
    using Suc.prems by (simp add: loop_body_def load_local_def store_local_def)
  have res: "locals ?s1 ''result'' = Some (r * i)"
    by (simp add: store_local_def)
  from Suc.hyps(1) [OF m res] obtain s' where
    run: "for_range (i + 1) stop ?s1 = Inr s'" and
    g: "globals s' = globals ?s1" and
    n: "locals s' ''n'' = locals ?s1 ''n''" and
    r: "locals s' ''result'' = Some (r * i * (\<Prod>k = i + 1..stop - 1. k))"
    by blast
  have split: "{i..stop - 1} = insert i {i + 1..stop - 1}"
    using lt by (simp add: simp_from_to)
  have prod: "(\<Prod>k = i..stop - 1. k) = i * (\<Prod>k = i + 1..stop - 1. k)"
    by (subst split) simp
  have "for_range i stop s = Inr s'"
    using lt body run by (subst for_range.simps) simp
  moreover have "globals s' = globals s"
    using g by (simp add: store_local_def)
  moreover have "locals s' ''n'' = locals s ''n''"
    using n by (simp add: store_local_def)
  moreover have "locals s' ''result'' = Some (r * (\<Prod>k = i..stop - 1. k))"
    using r prod by (simp add: mult.assoc)
  ultimately show ?case by blast
qed

lemma factorial_exec_eq: "factorial_exec n g = Inr (\<Prod>k = 1..n. k, g)"
proof -
  let ?s1 = "store_local ''result'' 1 \<lparr>globals = g, locals = [''n'' \<mapsto> n]\<rparr>"
  have "locals ?s1 ''result'' = Some 1"
    by (simp add: store_local_def)
  from for_range_frame [OF this, of 1 "n + 1"] obtain s' where
    "for_range 1 (n + 1) ?s1 = Inr s'" "globals s' = globals ?s1"
    "locals s' ''result'' = Some (\<Prod>k = 1..n. k)"
    by auto
  moreover have "load_local ''n'' ?s1 = Inr n" "globals ?s1 = g"
    by (simp_all add: load_local_def store_local_def)
  ultimately show ?thesis
    by (simp add: factorial_exec_def Let_def load_local_def)
qed

lemma factorial_calls_eq:
  "factorial_calls ns g = Inr (map (\<lambda>n. \<Prod>k = 1..n. k) ns, g)"
  by (induction ns) (simp_all add: factorial_exec_eq)

section \<open>The properties of factorial\<close>

text \<open>
  Claim C1. For every integer \<open>n \<ge> 0\<close>, \<open>factorial(n)\<close> returns the product of all
  integers from 1 to \<open>n\<close> inclusive, which is the mathematical factorial of \<open>n\<close>; for
  \<open>n = 0\<close> the range is empty and the result is 1.
\<close>

theorem factorial_is_product:
  "0 \<le> n \<Longrightarrow>
     factorial n = Some (\<Prod>k = 1..n. k) \<and>
     factorial n = Some (fact (nat n)) \<and>
     (n = 0 \<longrightarrow> factorial n = Some 1)"
  using prod_upto_fact [of n] by (simp add: factorial_eq_prod)

theorem factorial_is_product_witness:
  "(0::int) \<le> 5 \<and> factorial 5 = Some 120 \<and> (\<Prod>k = 1..5. k) = (120::int) \<and>
   (0::int) \<le> 0 \<and> factorial 0 = Some 1"
proof -
  have at_5: "factorial 5 = Some (\<Prod>k = 1..5. k) \<and> factorial 5 = Some (fact (nat 5)) \<and>
      ((5::int) = 0 \<longrightarrow> factorial 5 = Some 1)"
    by (rule factorial_is_product) simp
  from at_5 have by_prod: "factorial 5 = Some (\<Prod>k = 1..5. k)"
    by (rule conjunct1)
  from at_5 have "factorial 5 = Some (fact (nat 5))"
    by (rule conjunct2 [THEN conjunct1])
  then have value_5: "factorial 5 = Some 120"
    by (simp add: fact_numeral)
  with by_prod have prod_5: "(\<Prod>k = 1..5. k) = (120::int)"
    by simp
  have "factorial 0 = Some 1"
    using factorial_is_product [of 0] by simp
  with value_5 prod_5 show ?thesis
    by simp
qed

text \<open>
  Claim C2. For every integer \<open>n \<ge> 1\<close>, \<open>factorial(n) == n * factorial(n - 1)\<close>: both
  calls return, and the first result is \<open>n\<close> times the second.
\<close>

theorem factorial_recurrence:
  "1 \<le> n \<Longrightarrow> \<exists>r. factorial (n - 1) = Some r \<and> factorial n = Some (n * r)"
proof -
  assume n: "1 \<le> n"
  then have "{1..n} = insert n {1..n - 1}"
    using atLeastAtMostPlus1_int_conv [of 1 "n - 1"] by simp
  then have "(\<Prod>k = 1..n. k) = n * (\<Prod>k = 1..n - 1. k)"
    by simp
  then show ?thesis by (simp add: factorial_eq_prod)
qed

theorem factorial_recurrence_witness:
  "(1::int) \<le> 5 \<and> (\<exists>r. factorial (5 - 1) = Some r \<and> factorial 5 = Some (5 * r))"
  using factorial_recurrence [of 5] by simp

text \<open>
  Claim C3. \<open>factorial(0) == 1\<close>, \<open>factorial(1) == 1\<close>, \<open>factorial(5) == 120\<close> and
  \<open>factorial(10) == 3628800\<close>, by running the loop.
\<close>

theorem factorial_values:
  "factorial 0 = Some 1 \<and> factorial 1 = Some 1 \<and> factorial 5 = Some 120 \<and>
   factorial 10 = Some 3628800"
  by code_simp

text \<open>
  Claim C4. For every negative integer \<open>n\<close>, the loop body of \<open>factorial(n)\<close> runs zero
  times and the call returns 1.
\<close>

theorem factorial_negative:
  "n < 0 \<Longrightarrow> factorial_iterations n = Some 0 \<and> factorial n = Some 1"
  by (simp add: factorial_iterations_eq factorial_eq_prod)

theorem factorial_negative_witness:
  "(-3::int) < 0 \<and> factorial_iterations (-3) = Some 0 \<and> factorial (-3) = Some 1"
  using factorial_negative [of "-3"] by simp

text \<open>\<open>21!\<close> is the first factorial above \<open>2 ^ 64\<close>.\<close>

lemma fact_21_gt: "(2::int) ^ 64 < fact 21"
  by (simp add: fact_numeral)

text \<open>
  Claim C5. Once the factorial no longer fits 64 bits, which is so from \<open>n = 21\<close> on
  (and at \<open>n = 25\<close>), \<open>factorial(n)\<close> still returns the exact factorial: the result is
  greater than \<open>2 ^ 64\<close> and is not its own residue modulo \<open>2 ^ 64\<close>, so nothing was
  truncated or reduced.
\<close>

theorem factorial_exact_beyond_64_bits:
  "21 \<le> n \<Longrightarrow>
     \<exists>r. factorial n = Some r \<and> r = fact (nat n) \<and> 2 ^ 64 < r \<and> r mod 2 ^ 64 \<noteq> r"
proof -
  assume n: "21 \<le> n"
  then have "(fact 21 :: int) \<le> fact (nat n)"
    by (intro fact_mono) simp
  with fact_21_gt have big: "(2::int) ^ 64 < fact (nat n)"
    by linarith
  have "(fact (nat n) :: int) mod 2 ^ 64 < 2 ^ 64"
    by simp
  with big have "(fact (nat n) :: int) mod 2 ^ 64 \<noteq> fact (nat n)"
    by linarith
  moreover have "factorial n = Some (fact (nat n))"
    using n prod_upto_fact [of n] by (simp add: factorial_eq_prod)
  ultimately show ?thesis using big by simp
qed

theorem factorial_exact_beyond_64_bits_witness:
  "(21::int) \<le> 25 \<and> factorial 25 = Some 15511210043330985984000000 \<and>
   (2::int) ^ 64 < 15511210043330985984000000 \<and>
   (15511210043330985984000000::int) mod 2 ^ 64 \<noteq> 15511210043330985984000000"
  using factorial_exact_beyond_64_bits [of 25] by (simp add: fact_numeral)

text \<open>
  Claim C6. \<open>factorial\<close> is total on the integers: for every integer \<open>n\<close>, negative
  ones included, the call leaves the loop and returns an integer. The body has no
  \<open>raise\<close>, and its operations (\<open>+\<close>, \<open>*\<close> and \<open>range\<close> on integers) raise nothing,
  so returning is the whole of the claim.
\<close>

theorem factorial_returns: "\<exists>r. factorial n = Some r"
  by (simp add: factorial_eq_prod)

text \<open>
  Claim C7. \<open>factorial\<close> is deterministic and has no hidden state: take any two
  sequences of calls, started from any two states of the globals; each sequence runs
  to its end without an exception and leaves the globals as it found them, and a call
  at any position of the first and a call at any position of the second, made with the
  same argument, return the same value, which is the value of \<open>factorial\<close>.
\<close>

theorem factorial_deterministic:
  "i < length ns \<Longrightarrow> j < length ms \<Longrightarrow> ns ! i = ms ! j \<Longrightarrow>
     \<exists>rs rs'. factorial_calls ns g = Inr (rs, g) \<and> factorial_calls ms g' = Inr (rs', g') \<and>
       length rs = length ns \<and> length rs' = length ms \<and>
       rs ! i = rs' ! j \<and> factorial (ns ! i) = Some (rs ! i)"
  by (simp add: factorial_calls_eq factorial_eq_prod)

theorem factorial_deterministic_witness:
  "(0::nat) < length [3, 5, 3::int] \<and> (1::nat) < length [-1, 3::int] \<and> [3, 5, 3::int] ! 0 = [-1, 3] ! 1 \<and>
   (\<exists>rs rs'. factorial_calls [3, 5, 3] (Map.empty :: string \<rightharpoonup> int) = Inr (rs, Map.empty) \<and>
      factorial_calls [-1, 3] [''cache'' \<mapsto> 7::int] = Inr (rs', [''cache'' \<mapsto> 7]) \<and>
      length rs = length [3, 5, 3::int] \<and> length rs' = length [-1, 3::int] \<and>
      rs ! 0 = rs' ! 1 \<and> factorial ([3, 5, 3] ! 0) = Some (rs ! 0))"
proof -
  have h1: "(0::nat) < length [3, 5, 3::int]"
    and h2: "(1::nat) < length [-1, 3::int]"
    and h3: "[3, 5, 3::int] ! 0 = [-1, 3] ! 1"
    by simp_all
  from factorial_deterministic
    [OF h1 h2 h3, of "Map.empty :: string \<rightharpoonup> int" "[''cache'' \<mapsto> 7::int]"] h1 h2 h3
  show ?thesis by blast
qed

text \<open>
  Claim C9. For every integer \<open>n\<close>, negative, zero or positive, the result of
  \<open>factorial(n)\<close> is at least 1: never zero, never negative.
\<close>

theorem factorial_positive: "\<exists>r. factorial n = Some r \<and> 1 \<le> r"
proof (cases "0 \<le> n")
  case True
  have "(1::int) \<le> fact (nat n)" by (rule fact_ge_1)
  with True show ?thesis
    using prod_upto_fact [of n] by (simp add: factorial_eq_prod)
next
  case False
  then show ?thesis by (simp add: factorial_eq_prod)
qed

section \<open>The properties of the greeting script\<close>




text \<open>
  Claim C10. When \<open>--user\<close> is absent and neither \<open>USER\<close> nor \<open>USERNAME\<close> is set,
  \<open>get_user_name\<close> returns \<open>None\<close> and \<open>main\<close> prints the line \<open>Hi! Are you None?\<close>,
  whatever the codec of standard output.
\<close>

theorem main_without_any_name:
  "user args = None \<Longrightarrow> getenv env ''USER'' = None \<Longrightarrow> getenv env ''USERNAME'' = None \<Longrightarrow>
     get_user_name env = None \<and> main enc args env out = Inr (out @ ''Hi! Are you None?'' @ [CHR 0x0A])"
  by (simp add: get_user_name_def main_def print_py_def encodable_def)

theorem main_without_any_name_witness:
  "user \<lparr>user = None\<rparr> = None \<and> getenv Map.empty ''USER'' = None \<and> getenv Map.empty ''USERNAME'' = None \<and>
   get_user_name Map.empty = None \<and>
   main (\<lambda>c. False) \<lparr>user = None\<rparr> Map.empty [] = Inr (''Hi! Are you None?'' @ [CHR 0x0A])"
  using main_without_any_name [of "\<lparr>user = None\<rparr>" Map.empty "\<lambda>c. False" "[]"] by (simp add: getenv_def)

end
